theory Spec2Isabelle
  imports Complex_Main "HOL-Library.Multiset" "HOL-Library.Sublist"
begin

section \<open>Conventions of the embedding\<close>

text \<open>
  The sources are TypeScript. A JavaScript \<open>number\<close> is modelled as a \<open>real\<close>: the
  rounding of IEEE-754 doubles and the infinities are not modelled. Where the code can
  produce \<open>NaN\<close> from well-typed input (\<open>Number\<close> of a string, \<open>parseInt\<close>, an unparsable
  date) the value is a \<open>jsnum\<close>, whose \<open>None\<close> is \<open>NaN\<close>. A valid \<open>Date\<close> is its time value,
  an integer number of milliseconds. The clock (\<open>Date.now()\<close>, \<open>new Date()\<close>) is an
  argument \<open>now\<close> of the function that reads it, read once per call of \<open>analyze\<close> and of
  \<open>parseResponse\<close>. Strings are lists of 8-bit characters.
\<close>

type_synonym jsnum = "real option"

datatype Date = Date int | InvalidDate

text \<open>\<open>new Date(x)\<close> for a number \<open>x\<close>: the time value is clipped to the range of
  \<open>\<plusminus>8.64e15\<close> ms and truncated towards zero.\<close>

definition js_trunc :: "real \<Rightarrow> int" where
  "js_trunc x = (if 0 \<le> x then \<lfloor>x\<rfloor> else \<lceil>x\<rceil>)"

definition new_Date :: "real \<Rightarrow> Date" where
  "new_Date x = (if \<bar>x\<bar> > 8640000000000000 then InvalidDate else Date (js_trunc x))"

text \<open>\<open>Math.round\<close> rounds halves towards \<open>+\<infinity>\<close>, as \<^const>\<open>round\<close> does.\<close>

definition Math_round :: "real \<Rightarrow> real" where
  "Math_round x = real_of_int (round x)"

text \<open>\<open>Math.max(...xs)\<close>; \<open>None\<close> is the \<open>-Infinity\<close> of the empty argument list.\<close>

fun Math_max :: "real list \<Rightarrow> real option" where
  "Math_max [] = None"
| "Math_max (x # xs) = (case Math_max xs of None \<Rightarrow> Some x | Some m \<Rightarrow> Some (max x m))"

text \<open>The decimal rendering of an integer inside a template literal.\<close>

definition digit_char :: "nat \<Rightarrow> char" where
  "digit_char d = ''0123456789'' ! d"

fun decimal :: "nat \<Rightarrow> string" where
  "decimal n = (if 10 \<le> n then decimal (n div 10) @ [digit_char (n mod 10)] else [digit_char n])"

declare decimal.simps [simp del]

definition string_of_int :: "int \<Rightarrow> string" where
  "string_of_int i = (if i < 0 then ''-'' @ decimal (nat (- i)) else decimal (nat i))"

section \<open>Data model (types/index.ts)\<close>

record ModelQuota =
  label :: string
  modelId :: string
  remainingFraction :: real
  remainingPercent :: real
  isExhausted :: bool
  resetTime :: Date
  timeUntilReset :: jsnum
  timeUntilResetFormatted :: string

record PromptCredits =
  available :: jsnum
  monthly :: jsnum
  usedPercentage :: jsnum
  remainingPercentage :: jsnum

record QuotaSnapshot =
  timestamp :: int
  models :: "ModelQuota list"
  promptCredits :: "PromptCredits option"

datatype TrendDirection = stable | decreasing | warning | critical

record UsageInsight =
  burnRate :: real
  burnRateLabel :: string
  predictedExhaustion :: "Date option"
  predictedExhaustionLabel :: string
  trendDirection :: TrendDirection
  sessionUsage :: real
  isActive :: bool

record ModelWithInsights = ModelQuota +
  insights :: UsageInsight

text \<open>The field \<open>sessionStartTime\<close> of the enriched snapshot is named \<open>sessionStart\<close>
  here, the name \<open>sessionStartTime\<close> being the service's own field below.\<close>

record SnapshotWithInsights = QuotaSnapshot +
  modelsWithInsights :: "ModelWithInsights list"
  overallHealth :: real
  healthLabel :: string
  sessionStart :: int
  totalSessionUsage :: real

text \<open>A history entry; its fields \<open>timestamp\<close> and \<open>models\<close> carry the prefix \<open>entry\<close>.\<close>

record HistoryEntry =
  entry_timestamp :: int
  entry_models :: "string \<rightharpoonup> real"

section \<open>InsightsService (insightsService.ts)\<close>

definition MAX_HISTORY :: nat where
  "MAX_HISTORY = 20"

record InsightsService =
  history :: "HistoryEntry list"
  sessionStartTime :: int
  sessionStartQuotas :: "string \<rightharpoonup> real"
  lastActiveModelId :: "string option"

definition newInsightsService :: "int \<Rightarrow> InsightsService" where
  "newInsightsService now =
     \<lparr>history = [], sessionStartTime = now, sessionStartQuotas = Map.empty,
      lastActiveModelId = None\<rparr>"

definition historyEntry :: "QuotaSnapshot \<Rightarrow> HistoryEntry" where
  "historyEntry snapshot =
     \<lparr>entry_timestamp = timestamp snapshot,
      entry_models = fold (\<lambda>model mp. mp(modelId model \<mapsto> remainingPercent model))
                          (models snapshot) Map.empty\<rparr>"

definition recordSnapshot :: "InsightsService \<Rightarrow> QuotaSnapshot \<Rightarrow> InsightsService" where
  "recordSnapshot s snapshot =
     (let pushed = history s @ [historyEntry snapshot]
      in s\<lparr>history := (if length pushed > MAX_HISTORY then tl pushed else pushed)\<rparr>)"

definition initSessionStart :: "InsightsService \<Rightarrow> QuotaSnapshot \<Rightarrow> InsightsService" where
  "initSessionStart s snapshot =
     s\<lparr>sessionStartQuotas :=
         fold (\<lambda>model mp. if mp (modelId model) = None
                           then mp(modelId model \<mapsto> remainingPercent model) else mp)
              (models snapshot) (sessionStartQuotas s)\<rparr>"

definition calculateBurnRate :: "InsightsService \<Rightarrow> string \<Rightarrow> real" where
  "calculateBurnRate s mid =
     (if length (history s) < 2 then 0
      else
        let oldest = hd (history s); newest = last (history s)
        in case entry_models oldest mid of
             None \<Rightarrow> 0
           | Some oldValue \<Rightarrow>
               (case entry_models newest mid of
                  None \<Rightarrow> 0
                | Some newValue \<Rightarrow>
                    let deltaPercent = oldValue - newValue;
                        deltaHours = real_of_int (entry_timestamp newest - entry_timestamp oldest)
                                       / (1000 * 60 * 60)
                    in if deltaHours \<le> 0 then 0 else max 0 (deltaPercent / deltaHours)))"

definition calculateSessionUsage :: "InsightsService \<Rightarrow> string \<Rightarrow> real \<Rightarrow> real" where
  "calculateSessionUsage s mid currentPercent =
     (case sessionStartQuotas s mid of
        None \<Rightarrow> 0
      | Some startPercent \<Rightarrow> max 0 (startPercent - currentPercent))"

definition detectActiveModel :: "InsightsService \<Rightarrow> ModelQuota \<Rightarrow> QuotaSnapshot \<Rightarrow> bool" where
  "detectActiveModel s model snapshot =
     (let burnRate = calculateBurnRate s (modelId model)
      in if burnRate > 1 \<and>
            Math_max (map (\<lambda>m. calculateBurnRate s (modelId m)) (models snapshot)) = Some burnRate
         then True
         else if lastActiveModelId s = Some (modelId model) then True
         else False)"

definition getTrendDirection :: "real \<Rightarrow> real \<Rightarrow> TrendDirection" where
  "getTrendDirection remaining rate =
     (if remaining \<le> 10 \<or> rate > 20 then critical
      else if remaining \<le> 25 \<or> rate > 10 then warning
      else if rate > 2 then decreasing
      else stable)"

definition getBurnRateLabel :: "real \<Rightarrow> string" where
  "getBurnRateLabel rate =
     (if rate \<le> 0.5 then ''Minimal''
      else if rate \<le> 2 then ''Slow''
      else if rate \<le> 5 then ''Moderate''
      else if rate \<le> 15 then ''Fast''
      else ''Very Fast'')"

definition formatPrediction :: "real \<Rightarrow> string" where
  "formatPrediction hours =
     (if hours > 48 then
        (let days = \<lfloor>hours / 24\<rfloor> in ''~'' @ string_of_int days @ ''d'')
      else if hours > 1 then
        (let h = \<lfloor>hours\<rfloor>; m = round ((hours - real_of_int h) * 60)
         in if m > 0 then ''~'' @ string_of_int h @ ''h '' @ string_of_int m @ ''m''
            else ''~'' @ string_of_int h @ ''h'')
      else
        (let mins = round (hours * 60)
         in if mins > 0 then ''~'' @ string_of_int mins @ ''m'' else ''<1m''))"

definition analyzeModel ::
  "InsightsService \<Rightarrow> int \<Rightarrow> ModelQuota \<Rightarrow> QuotaSnapshot \<Rightarrow> ModelWithInsights \<times> InsightsService"
where
  "analyzeModel s now model snapshot =
     (let rate = calculateBurnRate s (modelId model);
          usage = calculateSessionUsage s (modelId model) (remainingPercent model);
          active = detectActiveModel s model snapshot;
          (predicted, predictedLabel) =
            (if rate > 0 \<and> remainingPercent model > 0 then
               (let hoursUntilEmpty = remainingPercent model / rate
                in (Some (new_Date (real_of_int now + hoursUntilEmpty * 60 * 60 * 1000)),
                    formatPrediction hoursUntilEmpty))
             else if isExhausted model then (None, ''Exhausted'')
             else (None, ''Safe''));
          trend = getTrendDirection (remainingPercent model) rate;
          rateLabel = getBurnRateLabel rate;
          s' = (if active then s\<lparr>lastActiveModelId := Some (modelId model)\<rparr> else s)
      in (\<lparr>label = label model, modelId = modelId model,
            remainingFraction = remainingFraction model,
            remainingPercent = remainingPercent model, isExhausted = isExhausted model,
            resetTime = resetTime model, timeUntilReset = timeUntilReset model,
            timeUntilResetFormatted = timeUntilResetFormatted model,
            insights =
              \<lparr>burnRate = rate, burnRateLabel = rateLabel, predictedExhaustion = predicted,
               predictedExhaustionLabel = predictedLabel, trendDirection = trend,
               sessionUsage = usage, isActive = active\<rparr>\<rparr>,
          s'))"

text \<open>\<open>snapshot.models.map(model => this.analyzeModel(model, snapshot))\<close>: the models are
  analysed from left to right, each call seeing the state the previous one left.\<close>

fun analyzeModels ::
  "InsightsService \<Rightarrow> int \<Rightarrow> QuotaSnapshot \<Rightarrow> ModelQuota list
     \<Rightarrow> ModelWithInsights list \<times> InsightsService"
where
  "analyzeModels s now snapshot [] = ([], s)"
| "analyzeModels s now snapshot (model # rest) =
     (let (r, s') = analyzeModel s now model snapshot;
          (rs, s'') = analyzeModels s' now snapshot rest
      in (r # rs, s''))"

text \<open>The comparator handed to \<open>Array.prototype.sort\<close>, and the sort itself. The sort of
  the language is stable; it is modelled by a stable insertion sort.\<close>

definition compareModels :: "ModelWithInsights \<Rightarrow> ModelWithInsights \<Rightarrow> real" where
  "compareModels a b =
     (if isActive (insights a) \<and> \<not> isActive (insights b) then - 1
      else if \<not> isActive (insights a) \<and> isActive (insights b) then 1
      else remainingPercent a - remainingPercent b)"

fun insert_by :: "('a \<Rightarrow> 'a \<Rightarrow> real) \<Rightarrow> 'a \<Rightarrow> 'a list \<Rightarrow> 'a list" where
  "insert_by cmp x [] = [x]"
| "insert_by cmp x (y # ys) = (if cmp x y \<le> 0 then x # y # ys else y # insert_by cmp x ys)"

definition sort_by :: "('a \<Rightarrow> 'a \<Rightarrow> real) \<Rightarrow> 'a list \<Rightarrow> 'a list" where
  "sort_by cmp xs = foldr (insert_by cmp) xs []"

definition getHealthLabel :: "real \<Rightarrow> string" where
  "getHealthLabel health =
     (if health \<ge> 75 then ''Excellent''
      else if health \<ge> 50 then ''Good''
      else if health \<ge> 25 then ''Low''
      else ''Critical'')"

definition calculateOverallHealth :: "ModelWithInsights list \<Rightarrow> real \<times> string" where
  "calculateOverallHealth ms =
     (if length ms = 0 then (100, ''Unknown'')
      else
        let weight = (\<lambda>m. if isActive (insights m) then 3 else (1::real));
            totalWeight = fold (\<lambda>m acc. acc + weight m) ms 0;
            weightedSum = fold (\<lambda>m acc. acc + remainingPercent m * weight m) ms 0;
            health = Math_round (weightedSum / totalWeight)
        in (health, getHealthLabel health))"

definition analyze ::
  "InsightsService \<Rightarrow> int \<Rightarrow> QuotaSnapshot \<Rightarrow> SnapshotWithInsights \<times> InsightsService"
where
  "analyze s now snapshot =
     (let s1 = recordSnapshot s snapshot;
          s2 = initSessionStart s1 snapshot;
          (analysed, s3) = analyzeModels s2 now snapshot (models snapshot);
          sorted = sort_by compareModels analysed;
          (health, hlabel) = calculateOverallHealth sorted;
          total = (if length sorted > 0
                   then fold (\<lambda>m acc. acc + sessionUsage (insights m)) sorted 0
                          / real (length sorted)
                   else 0)
      in (\<lparr>timestamp = timestamp snapshot, models = models snapshot,
            promptCredits = promptCredits snapshot,
            modelsWithInsights = sorted, overallHealth = health, healthLabel = hlabel,
            sessionStart = sessionStartTime s3, totalSessionUsage = Math_round total\<rparr>,
          s3))"

text \<open>A monitoring session: a fresh service analysing a sequence of snapshots, each at
  its own clock reading.\<close>

definition analyzeAll :: "InsightsService \<Rightarrow> (int \<times> QuotaSnapshot) list \<Rightarrow> InsightsService" where
  "analyzeAll s xs = fold (\<lambda>(now, snapshot) st. snd (analyze st now snapshot)) xs s"

section \<open>QuotaService (quotaService.ts)\<close>

text \<open>The raw response (\<open>ServerUserStatusResponse\<close>). An optional property is an
  \<open>option\<close>. The tests hand \<open>parseResponse\<close> a body without \<open>userStatus\<close>, so that
  property is optional here too. The fields \<open>label\<close>, \<open>remainingFraction\<close> and \<open>resetTime\<close>
  of the raw entry carry the prefix \<open>raw\<close>.\<close>

datatype StringOrNumber = Num real | Str string

record PlanInfo =
  monthlyPromptCredits :: StringOrNumber

record PlanStatus =
  planInfo :: "PlanInfo option"
  availablePromptCredits :: "StringOrNumber option"

record QuotaInfo =
  raw_remainingFraction :: "real option"
  raw_resetTime :: "string option"

record ModelOrAlias =
  model :: "string option"

record RawModelConfig =
  raw_label :: string
  modelOrAlias :: "ModelOrAlias option"
  quotaInfo :: "QuotaInfo option"

record CascadeModelConfigData =
  clientModelConfigs :: "RawModelConfig list option"

record UserStatus =
  planStatus :: "PlanStatus option"
  cascadeModelConfigData :: "CascadeModelConfigData option"

record ServerUserStatusResponse =
  userStatus :: "UserStatus option"

datatype error = NotConfigured | RequestFailed | RequestTimeout | InvalidJSON | TypeError

text \<open>\<open>Number(v)\<close> for a string or a number. The conversion of a string is the
  language's own; it is the argument \<open>ofString\<close>.\<close>

definition Number :: "(string \<Rightarrow> jsnum) \<Rightarrow> StringOrNumber \<Rightarrow> jsnum" where
  "Number ofString v = (case v of Num r \<Rightarrow> Some r | Str str \<Rightarrow> ofString str)"

text \<open>\<open>formatTime\<close>. On \<open>NaN\<close> every comparison of the source is false, and the last
  template literal renders \<open>NaN\<close> followed by \<open>d\<close>.\<close>

definition formatTime :: "jsnum \<Rightarrow> string" where
  "formatTime ms =
     (case ms of
        None \<Rightarrow> ''NaNd''
      | Some x \<Rightarrow>
          if x \<le> 0 then ''Ready''
          else
            let mins = \<lceil>x / 60000\<rceil>
            in if mins < 60 then string_of_int mins @ ''m''
               else
                 let hours = mins div 60; remainingMins = mins mod 60
                 in if hours < 24 then
                      (if remainingMins > 0
                       then string_of_int hours @ ''h '' @ string_of_int remainingMins @ ''m''
                       else string_of_int hours @ ''h'')
                    else
                      let days = hours div 24; remainingHours = hours mod 24
                      in if remainingHours > 0
                         then string_of_int days @ ''d '' @ string_of_int remainingHours @ ''h''
                         else string_of_int days @ ''d'')"

text \<open>\<open>m.modelOrAlias?.model || 'unknown'\<close>: an absent and an empty identifier both give
  the default.\<close>

definition effectiveModelId :: "RawModelConfig \<Rightarrow> string" where
  "effectiveModelId m =
     (case modelOrAlias m of
        None \<Rightarrow> ''unknown''
      | Some alias \<Rightarrow>
          (case model alias of
             None \<Rightarrow> ''unknown''
           | Some name \<Rightarrow> if name = [] then ''unknown'' else name))"

text \<open>\<open>userStatus.cascadeModelConfigData?.clientModelConfigs || []\<close>.\<close>

definition rawModelsOf :: "UserStatus \<Rightarrow> RawModelConfig list" where
  "rawModelsOf status =
     (case cascadeModelConfigData status of
        None \<Rightarrow> []
      | Some cascade \<Rightarrow>
          (case clientModelConfigs cascade of
             None \<Rightarrow> []
           | Some configs \<Rightarrow> configs))"

text \<open>The body of the \<open>map\<close> callback of \<open>parseResponse\<close>, for an entry \<open>m\<close> whose quota
  info is \<open>q\<close>. \<open>parseDate\<close> is \<open>new Date(string)\<close>.\<close>

definition parseModel :: "(string \<Rightarrow> Date) \<Rightarrow> int \<Rightarrow> RawModelConfig \<Rightarrow> QuotaInfo \<Rightarrow> ModelQuota" where
  "parseModel parseDate now m q =
     (let reset = (case raw_resetTime q of
                     None \<Rightarrow> Date now
                   | Some str \<Rightarrow> if str = [] then Date now else parseDate str);
          diff = (case reset of
                    Date t \<Rightarrow> Some (real_of_int (t - now))
                  | InvalidDate \<Rightarrow> None);
          fraction = (case raw_remainingFraction q of None \<Rightarrow> 1 | Some f \<Rightarrow> f)
      in \<lparr>label = raw_label m,
          modelId = effectiveModelId m,
          remainingFraction = fraction,
          remainingPercent = Math_round (fraction * 100),
          isExhausted = (fraction = 0),
          resetTime = reset,
          timeUntilReset = diff,
          timeUntilResetFormatted = formatTime diff\<rparr>)"

definition parseModels :: "(string \<Rightarrow> Date) \<Rightarrow> int \<Rightarrow> RawModelConfig list \<Rightarrow> ModelQuota list" where
  "parseModels parseDate now rawModels =
     map (\<lambda>m. parseModel parseDate now m (the (quotaInfo m)))
         (filter (\<lambda>m. quotaInfo m \<noteq> None) rawModels)"

definition parseCredits :: "(string \<Rightarrow> jsnum) \<Rightarrow> UserStatus \<Rightarrow> PromptCredits option" where
  "parseCredits ofString status =
     (case planStatus status of
        None \<Rightarrow> None
      | Some plan \<Rightarrow>
          (case planInfo plan of
             None \<Rightarrow> None
           | Some info \<Rightarrow>
               (case availablePromptCredits plan of
                  None \<Rightarrow> None
                | Some availableCredits \<Rightarrow>
                    (case Number ofString (monthlyPromptCredits info) of
                       None \<Rightarrow> None
                     | Some monthlyValue \<Rightarrow>
                         if monthlyValue > 0 then
                           (let availableValue = Number ofString availableCredits
                            in Some
                                 \<lparr>available = availableValue,
                                  monthly = Some monthlyValue,
                                  usedPercentage =
                                    map_option (\<lambda>a. ((monthlyValue - a) / monthlyValue) * 100)
                                      availableValue,
                                  remainingPercentage =
                                    map_option (\<lambda>a. (a / monthlyValue) * 100) availableValue\<rparr>)
                         else None))))"

definition parseResponse ::
  "(string \<Rightarrow> jsnum) \<Rightarrow> (string \<Rightarrow> Date) \<Rightarrow> int \<Rightarrow> ServerUserStatusResponse
     \<Rightarrow> error + QuotaSnapshot"
where
  "parseResponse ofString parseDate now data =
     (case userStatus data of
        None \<Rightarrow> Inl TypeError
      | Some status \<Rightarrow>
          (let rawModels = rawModelsOf status
           in Inr \<lparr>timestamp = now,
                   models = parseModels parseDate now rawModels,
                   promptCredits = parseCredits ofString status\<rparr>))"

text \<open>The service. Its private fields \<open>port\<close> and \<open>csrfToken\<close> are named \<open>servicePort\<close>
  and \<open>serviceToken\<close>.\<close>

record QuotaService =
  servicePort :: int
  serviceToken :: string
  lastSnapshot :: "QuotaSnapshot option"

definition newQuotaService :: QuotaService where
  "newQuotaService = \<lparr>servicePort = 0, serviceToken = [], lastSnapshot = None\<rparr>"

definition setConnection :: "QuotaService \<Rightarrow> int \<Rightarrow> string \<Rightarrow> QuotaService" where
  "setConnection s p token = s\<lparr>servicePort := p, serviceToken := token\<rparr>"

definition isConfigured :: "QuotaService \<Rightarrow> bool" where
  "isConfigured s = (servicePort s > 0 \<and> length (serviceToken s) > 0)"

definition getSnapshot :: "QuotaService \<Rightarrow> QuotaSnapshot option" where
  "getSnapshot s = lastSnapshot s"

text \<open>What the HTTPS exchange of \<open>request\<close> can end in: an \<open>error\<close> event, a \<open>timeout\<close>
  event, a body that \<open>JSON.parse\<close> rejects, or a body that parses.\<close>

datatype Exchange = ErrorEvent | TimeoutEvent | Unparsable | Parsed ServerUserStatusResponse

definition request :: "Exchange \<Rightarrow> error + ServerUserStatusResponse" where
  "request x =
     (case x of
        ErrorEvent \<Rightarrow> Inl RequestFailed
      | TimeoutEvent \<Rightarrow> Inl RequestTimeout
      | Unparsable \<Rightarrow> Inl InvalidJSON
      | Parsed data \<Rightarrow> Inr data)"

definition poll ::
  "(string \<Rightarrow> jsnum) \<Rightarrow> (string \<Rightarrow> Date) \<Rightarrow> int \<Rightarrow> QuotaService \<Rightarrow> Exchange
     \<Rightarrow> (error + ModelQuota list) \<times> QuotaService"
where
  "poll ofString parseDate now s x =
     (if \<not> isConfigured s then (Inl NotConfigured, s)
      else
        case request x of
          Inl e \<Rightarrow> (Inl e, s)
        | Inr response \<Rightarrow>
            (case parseResponse ofString parseDate now response of
               Inl e \<Rightarrow> (Inl e, s)
             | Inr snapshot \<Rightarrow> (Inr (models snapshot), s\<lparr>lastSnapshot := Some snapshot\<rparr>)))"

section \<open>UnixStrategy (platformStrategies.ts)\<close>

text \<open>Strings are byte strings here, so \<open>\s\<close> and \<open>trim\<close> see the six ASCII white-space
  characters only.\<close>

definition isSpace :: "char \<Rightarrow> bool" where
  "isSpace c = (c \<in> set [CHR '' '', CHR 0x09, CHR 0x0A, CHR 0x0B, CHR 0x0C, CHR 0x0D])"

definition isDigit :: "char \<Rightarrow> bool" where
  "isDigit c = (c \<in> set ''0123456789'')"

definition isTokenChar :: "char \<Rightarrow> bool" where
  "isTokenChar c =
     (c \<in> set ''abcdefghijklmnopqrstuvwxyzABCDEFGHIJKLMNOPQRSTUVWXYZ0123456789-'')"

definition isSeparator :: "char \<Rightarrow> bool" where
  "isSeparator c = (c = CHR ''='' \<or> isSpace c)"

definition trim :: "string \<Rightarrow> string" where
  "trim str = rev (dropWhile isSpace (rev (dropWhile isSpace str)))"

text \<open>\<open>str.split(sep)\<close> for a one-character separator.\<close>

fun str_split :: "char \<Rightarrow> string \<Rightarrow> string list" where
  "str_split sep [] = [[]]"
| "str_split sep (c # cs) =
     (if c = sep then [] # str_split sep cs
      else (case str_split sep cs of
              [] \<Rightarrow> [[c]]
            | piece # pieces \<Rightarrow> (c # piece) # pieces))"

text \<open>\<open>hay.includes(needle)\<close>.\<close>

fun str_includes :: "string \<Rightarrow> string \<Rightarrow> bool" where
  "str_includes [] needle = (needle = [])"
| "str_includes (c # cs) needle = (prefix needle (c # cs) \<or> str_includes cs needle)"

text \<open>\<open>parseInt(str, 10)\<close>: leading white space, an optional sign, then the longest
  run of decimal digits; \<open>NaN\<close> when there is no digit.\<close>

definition digitValue :: "char \<Rightarrow> int" where
  "digitValue c =
     (case map_of (zip ''0123456789'' [0, 1, 2, 3, 4, 5, 6, 7, 8, 9]) c of
        Some d \<Rightarrow> d
      | None \<Rightarrow> 0)"

definition digitsValue :: "string \<Rightarrow> int" where
  "digitsValue ds = fold (\<lambda>c n. 10 * n + digitValue c) ds 0"

definition parseInt :: "string \<Rightarrow> int option" where
  "parseInt str =
     (let t = dropWhile isSpace str;
          negative = (t \<noteq> [] \<and> hd t = CHR ''-'');
          rest = (if t \<noteq> [] \<and> (hd t = CHR ''-'' \<or> hd t = CHR ''+'') then tl t else t);
          ds = takeWhile isDigit rest
      in if ds = [] then None
         else Some (if negative then - digitsValue ds else digitsValue ds))"

text \<open>\<open>str.match(/FLAG[=\s]+(CLASS+)/)\<close>, for the two patterns of the Unix strategy: the
  first capture group of the leftmost match, \<open>None\<close> for \<open>null\<close>. No character is both a
  separator and a member of either captured class, so at a given start the greedy match
  is the only candidate: the longest run of separators, then the longest run of the
  class, both non-empty.\<close>

definition matchAt :: "string \<Rightarrow> (char \<Rightarrow> bool) \<Rightarrow> string \<Rightarrow> string option" where
  "matchAt flag cls str =
     (if prefix flag str then
        (let rest = drop (length flag) str;
             captured = takeWhile cls (dropWhile isSeparator rest)
         in if takeWhile isSeparator rest \<noteq> [] \<and> captured \<noteq> [] then Some captured else None)
      else None)"

fun matchFlag :: "string \<Rightarrow> (char \<Rightarrow> bool) \<Rightarrow> string \<Rightarrow> string option" where
  "matchFlag flag cls [] = matchAt flag cls []"
| "matchFlag flag cls (c # cs) =
     (case matchAt flag cls (c # cs) of
        Some captured \<Rightarrow> Some captured
      | None \<Rightarrow> matchFlag flag cls cs)"

text \<open>The object literal \<open>parseProcessInfo\<close> returns; \<open>pid\<close> and \<open>extensionPort\<close> come from
  \<open>parseInt\<close>.\<close>

record ProcessMatch =
  pid :: "int option"
  extensionPort :: "int option"
  csrfToken :: string

text \<open>The body of the loop of \<open>UnixStrategy.parseProcessInfo\<close> for a line that contains
  the port flag; \<open>parts[0]\<close> is the first field of the trimmed line.\<close>

definition parseLine :: "string \<Rightarrow> ProcessMatch" where
  "parseLine line =
     (let first = takeWhile (\<lambda>c. \<not> isSpace c) (trim line);
          cmd = trim (drop (length first) line);
          portMatch = matchFlag ''--extension_server_port'' isDigit cmd;
          tokenMatch = matchFlag ''--csrf_token'' isTokenChar cmd
      in \<lparr>pid = parseInt first,
          extensionPort = (case portMatch of Some ds \<Rightarrow> parseInt ds | None \<Rightarrow> Some 0),
          csrfToken = (case tokenMatch of Some token \<Rightarrow> token | None \<Rightarrow> [])\<rparr>)"

definition UnixStrategy_parseProcessInfo :: "string \<Rightarrow> ProcessMatch option" where
  "UnixStrategy_parseProcessInfo stdout =
     (case find (\<lambda>line. str_includes line ''--extension_server_port'') (str_split CHR 0x0A stdout) of
        None \<Rightarrow> None
      | Some line \<Rightarrow> Some (parseLine line))"

section \<open>WindowsStrategy (platformStrategies.ts)\<close>

text \<open>The PowerShell command prints \<open>ProcessId\<close> and \<open>CommandLine\<close> of the processes found,
  as one JSON object or as an array of them. \<open>JSON.parse\<close> is an argument of the model:
  it gives the parsed output, or \<open>None\<close> when it throws, which sends the source to the
  WMIC format. A \<open>ProcessId\<close> or \<open>CommandLine\<close> that is absent or \<open>null\<close> is \<open>None\<close>.\<close>

record WinProcess =
  ProcessId :: "int option"
  CommandLine :: "string option"

datatype PowerShellOutput = ProcessArray "WinProcess list" | ProcessObject WinProcess

definition toLowerChar :: "char \<Rightarrow> char" where
  "toLowerChar c =
     (case map_of (zip ''ABCDEFGHIJKLMNOPQRSTUVWXYZ'' ''abcdefghijklmnopqrstuvwxyz'') c of
        Some l \<Rightarrow> l
      | None \<Rightarrow> c)"

definition toLowerCase :: "string \<Rightarrow> string" where
  "toLowerCase str = map toLowerChar str"

definition isWordChar :: "char \<Rightarrow> bool" where
  "isWordChar c =
     (c \<in> set ''abcdefghijklmnopqrstuvwxyzABCDEFGHIJKLMNOPQRSTUVWXYZ0123456789_'')"

definition isHexTokenChar :: "char \<Rightarrow> bool" where
  "isHexTokenChar c = (c \<in> set ''abcdefABCDEF0123456789-'')"

definition isLineChar :: "char \<Rightarrow> bool" where
  "isLineChar c = (c \<noteq> CHR 0x0A \<and> c \<noteq> CHR 0x0D)"

text \<open>\<open>/--app_data_dir\s+antigravity\b/i.test(str)\<close>: at some position the flag, a
  non-empty run of white space, the word, and then no word character; letters compare
  without case. The word does not begin with white space, so the run is the longest one.\<close>

definition appDataDirAt :: "string \<Rightarrow> bool" where
  "appDataDirAt str =
     (let rest = drop 14 str;
          after = dropWhile isSpace rest;
          tail = drop 11 after
      in toLowerCase (take 14 str) = ''--app_data_dir'' \<and>
         takeWhile isSpace rest \<noteq> [] \<and>
         toLowerCase (take 11 after) = ''antigravity'' \<and>
         (tail = [] \<or> \<not> isWordChar (hd tail)))"

fun testAppDataDir :: "string \<Rightarrow> bool" where
  "testAppDataDir [] = appDataDirAt []"
| "testAppDataDir (c # cs) = (appDataDirAt (c # cs) \<or> testAppDataDir cs)"

definition isAntigravityProcess :: "string \<Rightarrow> bool" where
  "isAntigravityProcess commandLine =
     (let lowerCmd = toLowerCase commandLine
      in if testAppDataDir commandLine then True
         else if str_includes lowerCmd ([CHR 0x5C] @ ''antigravity'' @ [CHR 0x5C])
                 \<or> str_includes lowerCmd ''/antigravity/''
         then True
         else False)"

text \<open>\<open>str.match(/--csrf_token[=\s]+([a-f0-9-]+)/i)\<close>: as \<open>matchFlag\<close>, the flag compared
  without case and the class closed under case.\<close>

definition matchTokenAt :: "string \<Rightarrow> string option" where
  "matchTokenAt str =
     (if toLowerCase (take 12 str) = ''--csrf_token'' then
        (let rest = drop 12 str;
             captured = takeWhile isHexTokenChar (dropWhile isSeparator rest)
         in if takeWhile isSeparator rest \<noteq> [] \<and> captured \<noteq> [] then Some captured else None)
      else None)"

fun matchToken :: "string \<Rightarrow> string option" where
  "matchToken [] = matchTokenAt []"
| "matchToken (c # cs) =
     (case matchTokenAt (c # cs) of
        Some captured \<Rightarrow> Some captured
      | None \<Rightarrow> matchToken cs)"

text \<open>\<open>str.match(/LITERAL(CLASS+)/)\<close>, for \<open>/ProcessId=(\d+)/\<close> and \<open>/CommandLine=(.+)/\<close>.\<close>

definition matchRunAt :: "string \<Rightarrow> (char \<Rightarrow> bool) \<Rightarrow> string \<Rightarrow> string option" where
  "matchRunAt literal cls str =
     (if prefix literal str then
        (let captured = takeWhile cls (drop (length literal) str)
         in if captured \<noteq> [] then Some captured else None)
      else None)"

fun matchRun :: "string \<Rightarrow> (char \<Rightarrow> bool) \<Rightarrow> string \<Rightarrow> string option" where
  "matchRun literal cls [] = matchRunAt literal cls []"
| "matchRun literal cls (c # cs) =
     (case matchRunAt literal cls (c # cs) of
        Some captured \<Rightarrow> Some captured
      | None \<Rightarrow> matchRun literal cls cs)"

text \<open>\<open>str.split(/\n\s*\n/)\<close>. A separator starts at a newline and ends at the last
  newline of the white space that follows it, if there is one; \<open>blankLineLength\<close> is the
  number of characters of the separator after its first.\<close>

definition blankLineLength :: "string \<Rightarrow> nat" where
  "blankLineLength rest =
     length (dropWhile (\<lambda>c. c \<noteq> CHR 0x0A) (rev (takeWhile isSpace rest)))"

fun splitBlankLines :: "string \<Rightarrow> string list" where
  "splitBlankLines [] = [[]]"
| "splitBlankLines (c # cs) =
     (if c = CHR 0x0A \<and> blankLineLength cs > 0
      then [] # splitBlankLines (drop (blankLineLength cs) cs)
      else (case splitBlankLines cs of
              [] \<Rightarrow> [[c]]
            | piece # pieces \<Rightarrow> (c # piece) # pieces))"

text \<open>The tail of the \<open>try\<close> block, for the process \<open>data\<close> that was selected.\<close>

definition parsePowerShellProcess :: "WinProcess \<Rightarrow> ProcessMatch option" where
  "parsePowerShellProcess data =
     (let commandLine = (case CommandLine data of Some cl \<Rightarrow> cl | None \<Rightarrow> [])
      in case ProcessId data of
           None \<Rightarrow> None
         | Some p \<Rightarrow>
             if p = 0 then None
             else
               (let portMatch = matchFlag ''--extension_server_port'' isDigit commandLine;
                    tokenMatch = matchToken commandLine
                in case tokenMatch of
                     None \<Rightarrow> None
                   | Some token \<Rightarrow>
                       Some \<lparr>pid = Some p,
                             extensionPort =
                               (case portMatch of Some ds \<Rightarrow> parseInt ds | None \<Rightarrow> Some 0),
                             csrfToken = token\<rparr>))"

definition isAntigravityItem :: "WinProcess \<Rightarrow> bool" where
  "isAntigravityItem item =
     (case CommandLine item of
        None \<Rightarrow> False
      | Some cl \<Rightarrow> cl \<noteq> [] \<and> isAntigravityProcess cl)"

text \<open>The body of the loop over the WMIC blocks; \<open>None\<close> is \<open>continue\<close>.\<close>

definition parseWmicBlock :: "string \<Rightarrow> ProcessMatch option" where
  "parseWmicBlock block =
     (case matchRun ''ProcessId='' isDigit block of
        None \<Rightarrow> None
      | Some pidDigits \<Rightarrow>
          (case matchRun ''CommandLine='' isLineChar block of
             None \<Rightarrow> None
           | Some rawCommandLine \<Rightarrow>
               (let commandLine = trim rawCommandLine
                in if \<not> isAntigravityProcess commandLine then None
                   else
                     (let portMatch = matchFlag ''--extension_server_port'' isDigit commandLine;
                          tokenMatch = matchToken commandLine
                      in case tokenMatch of
                           None \<Rightarrow> None
                         | Some token \<Rightarrow>
                             Some \<lparr>pid = parseInt pidDigits,
                                   extensionPort =
                                     (case portMatch of
                                        Some ds \<Rightarrow> parseInt ds
                                      | None \<Rightarrow> Some 0),
                                   csrfToken = token\<rparr>))))"

fun firstMatch :: "string list \<Rightarrow> ProcessMatch option" where
  "firstMatch [] = None"
| "firstMatch (block # blocks) =
     (case parseWmicBlock block of
        Some info \<Rightarrow> Some info
      | None \<Rightarrow> firstMatch blocks)"

definition parseWmic :: "string \<Rightarrow> ProcessMatch option" where
  "parseWmic stdout =
     firstMatch (filter (\<lambda>block. length (trim block) > 0) (splitBlankLines stdout))"

definition WindowsStrategy_parseProcessInfo ::
  "(string \<Rightarrow> PowerShellOutput option) \<Rightarrow> string \<Rightarrow> ProcessMatch option"
where
  "WindowsStrategy_parseProcessInfo jsonParse stdout =
     (case jsonParse (trim stdout) of
        Some (ProcessArray items) \<Rightarrow>
          if length items = 0 then None
          else (case filter isAntigravityItem items of
                  [] \<Rightarrow> None
                | data # others \<Rightarrow> parsePowerShellProcess data)
      | Some (ProcessObject data) \<Rightarrow>
          if \<not> isAntigravityItem data then None else parsePowerShellProcess data
      | None \<Rightarrow> parseWmic stdout)"

section \<open>Derived notions and example inputs\<close>

text \<open>The enriched resources of one \<open>analyze\<close> call in the order in which they are
  computed, which is the order of the snapshot; \<open>analyze\<close> returns them sorted.\<close>

definition analysedModels :: "InsightsService \<Rightarrow> int \<Rightarrow> QuotaSnapshot \<Rightarrow> ModelWithInsights list" where
  "analysedModels s now snapshot =
     fst (analyzeModels (initSessionStart (recordSnapshot s snapshot) snapshot) now snapshot
            (models snapshot))"

text \<open>The value of \<open>lastActiveModelId\<close> once the resources \<open>rs\<close> have been computed, when
  it was \<open>prev\<close> before: the id of the last active one among them, \<open>prev\<close> if none is.\<close>

definition rememberedActive :: "string option \<Rightarrow> ModelWithInsights list \<Rightarrow> string option" where
  "rememberedActive prev rs =
     fold (\<lambda>r acc. if isActive (insights r) then Some (modelId r) else acc) rs prev"

definition exampleModel :: "string \<Rightarrow> real \<Rightarrow> real \<Rightarrow> bool \<Rightarrow> ModelQuota" where
  "exampleModel mid fraction percent exhausted =
     \<lparr>label = mid, modelId = mid, remainingFraction = fraction, remainingPercent = percent,
      isExhausted = exhausted, resetTime = Date 0, timeUntilReset = Some 0,
      timeUntilResetFormatted = ''Ready''\<rparr>"

definition snapshot_full :: QuotaSnapshot where
  "snapshot_full =
     \<lparr>timestamp = 0,
      models = [exampleModel ''A'' 1 100 False, exampleModel ''B'' 1 100 False],
      promptCredits = None\<rparr>"

definition state_after_full :: InsightsService where
  "state_after_full = snd (analyze (newInsightsService 0) 0 snapshot_full)"

definition snapshot_tied :: QuotaSnapshot where
  "snapshot_tied =
     \<lparr>timestamp = 3600000,
      models = [exampleModel ''A'' 0.95 95 False, exampleModel ''B'' 0.95 95 False],
      promptCredits = None\<rparr>"

definition snapshot_b_burning :: QuotaSnapshot where
  "snapshot_b_burning =
     \<lparr>timestamp = 3600000,
      models = [exampleModel ''A'' 1 100 False, exampleModel ''B'' 0.9 90 False],
      promptCredits = None\<rparr>"

definition state_b_remembered :: InsightsService where
  "state_b_remembered = snd (analyze state_after_full 3600000 snapshot_b_burning)"

definition snapshot_a_burning :: QuotaSnapshot where
  "snapshot_a_burning =
     \<lparr>timestamp = 7200000,
      models = [exampleModel ''A'' 0.5 50 False, exampleModel ''B'' 0.9 90 False],
      promptCredits = None\<rparr>"




definition session25 :: "(int \<times> QuotaSnapshot) list" where
  "session25 =
     map (\<lambda>i. (int i, \<lparr>timestamp = int i, models = [], promptCredits = None\<rparr>)) [0..<25]"




text \<open>Stand-ins for the two conversions of the language that \<open>parseResponse\<close> takes as
  arguments, for the examples below, which convert no string.\<close>

definition nanOfString :: "string \<Rightarrow> jsnum" where
  "nanOfString str = None"

definition invalidDateOfString :: "string \<Rightarrow> Date" where
  "invalidDateOfString str = InvalidDate"

definition response_credits :: ServerUserStatusResponse where
  "response_credits =
     \<lparr>userStatus = Some
        \<lparr>planStatus = Some
           \<lparr>planInfo = Some \<lparr>monthlyPromptCredits = Num 500\<rparr>,
            availablePromptCredits = Some (Num 350)\<rparr>,
         cascadeModelConfigData = Some
           \<lparr>clientModelConfigs = Some
              [\<lparr>raw_label = ''Claude 3.5 Sonnet'',
                modelOrAlias = Some \<lparr>model = Some ''anthropic/claude-3.5-sonnet''\<rparr>,
                quotaInfo = Some \<lparr>raw_remainingFraction = Some 0.75, raw_resetTime = None\<rparr>\<rparr>,
               \<lparr>raw_label = ''Gemini Pro'',
                modelOrAlias = Some \<lparr>model = Some ''google/gemini-pro''\<rparr>,
                quotaInfo = Some \<lparr>raw_remainingFraction = Some 0, raw_resetTime = None\<rparr>\<rparr>,
               \<lparr>raw_label = ''Model Without Quota'',
                modelOrAlias = Some \<lparr>model = Some ''test/no-quota''\<rparr>,
                quotaInfo = None\<rparr>]\<rparr>\<rparr>\<rparr>"

definition snapshot_credits :: QuotaSnapshot where
  "snapshot_credits =
     \<lparr>timestamp = 1000,
      models =
        [\<lparr>label = ''Claude 3.5 Sonnet'', modelId = ''anthropic/claude-3.5-sonnet'',
          remainingFraction = 0.75, remainingPercent = 75, isExhausted = False,
          resetTime = Date 1000, timeUntilReset = Some 0, timeUntilResetFormatted = ''Ready''\<rparr>,
         \<lparr>label = ''Gemini Pro'', modelId = ''google/gemini-pro'',
          remainingFraction = 0, remainingPercent = 0, isExhausted = True,
          resetTime = Date 1000, timeUntilReset = Some 0, timeUntilResetFormatted = ''Ready''\<rparr>],
      promptCredits = Some
        \<lparr>available = Some 350, monthly = Some 500, usedPercentage = Some 30,
         remainingPercentage = Some 70\<rparr>\<rparr>"

definition response_same_id :: ServerUserStatusResponse where
  "response_same_id =
     \<lparr>userStatus = Some
        \<lparr>planStatus = None,
         cascadeModelConfigData = Some
           \<lparr>clientModelConfigs = Some
              [\<lparr>raw_label = ''GPT-4'',
                modelOrAlias = Some \<lparr>model = Some ''openai/gpt-4''\<rparr>,
                quotaInfo = Some \<lparr>raw_remainingFraction = Some 0.5, raw_resetTime = None\<rparr>\<rparr>,
               \<lparr>raw_label = ''GPT-4 (preview)'',
                modelOrAlias = Some \<lparr>model = Some ''openai/gpt-4''\<rparr>,
                quotaInfo = Some \<lparr>raw_remainingFraction = Some 1, raw_resetTime = None\<rparr>\<rparr>]\<rparr>\<rparr>\<rparr>"

definition snapshot_same_id :: QuotaSnapshot where
  "snapshot_same_id =
     \<lparr>timestamp = 1000,
      models =
        [\<lparr>label = ''GPT-4'', modelId = ''openai/gpt-4'',
          remainingFraction = 0.5, remainingPercent = 50, isExhausted = False,
          resetTime = Date 1000, timeUntilReset = Some 0, timeUntilResetFormatted = ''Ready''\<rparr>,
         \<lparr>label = ''GPT-4 (preview)'', modelId = ''openai/gpt-4'',
          remainingFraction = 1, remainingPercent = 100, isExhausted = False,
          resetTime = Date 1000, timeUntilReset = Some 0, timeUntilResetFormatted = ''Ready''\<rparr>],
      promptCredits = None\<rparr>"

definition raw_nearly_empty :: RawModelConfig where
  "raw_nearly_empty =
     \<lparr>raw_label = ''A'', modelOrAlias = Some \<lparr>model = Some ''A''\<rparr>,
      quotaInfo = Some \<lparr>raw_remainingFraction = Some 0.004, raw_resetTime = None\<rparr>\<rparr>"

definition service_polled :: QuotaService where
  "service_polled =
     \<lparr>servicePort = 42101, serviceToken = ''token'', lastSnapshot = Some snapshot_same_id\<rparr>"

definition line_without_token :: string where
  "line_without_token = ''77 ls --extension_server_port=42100''"

text \<open>The processes of a parsed PowerShell output.\<close>

definition processesOf :: "PowerShellOutput \<Rightarrow> WinProcess list" where
  "processesOf out = (case out of ProcessArray items \<Rightarrow> items | ProcessObject item \<Rightarrow> [item])"

definition noJson :: "string \<Rightarrow> PowerShellOutput option" where
  "noJson str = None"

definition wmic_with_token :: string where
  "wmic_with_token =
     ''ProcessId=4242'' @ [CHR 0x0D, CHR 0x0A] @
     ''CommandLine=C:/antigravity/ls.exe --extension_server_port=42100 --csrf_token ab12-cd'' @
     [CHR 0x0D, CHR 0x0A, CHR 0x0D, CHR 0x0A]"

definition wmic_without_token :: string where
  "wmic_without_token =
     ''ProcessId=4242'' @ [CHR 0x0D, CHR 0x0A] @
     ''CommandLine=C:/antigravity/ls.exe --extension_server_port=42100'' @
     [CHR 0x0D, CHR 0x0A, CHR 0x0D, CHR 0x0A]"

definition powershell_without_token :: "string \<Rightarrow> PowerShellOutput option" where
  "powershell_without_token str =
     Some (ProcessObject
             \<lparr>ProcessId = Some 4242,
              CommandLine = Some ''C:/antigravity/ls.exe --extension_server_port=42100''\<rparr>)"

section \<open>InsightsService: what one call changes\<close>

lemma analyzeModel_history: "history (snd (analyzeModel s now m snap)) = history s"
  by (simp add: analyzeModel_def Let_def case_prod_beta)

lemma analyzeModels_history: "history (snd (analyzeModels s now snap ms)) = history s"
  by (induction ms arbitrary: s) (simp_all add: analyzeModel_history case_prod_beta Let_def)

lemma analyze_history: "history (snd (analyze s now snap)) = history (recordSnapshot s snap)"
  by (simp add: analyze_def Let_def analyzeModels_history initSessionStart_def case_prod_beta)

lemma recordSnapshot_history:
  "history (recordSnapshot s snap) =
     (if length (history s) \<ge> MAX_HISTORY then tl (history s) @ [historyEntry snap]
      else history s @ [historyEntry snap])"
  by (cases "history s") (auto simp add: recordSnapshot_def Let_def MAX_HISTORY_def)

lemma calculateBurnRate_history:
  "history s' = history s \<Longrightarrow> calculateBurnRate s' mid = calculateBurnRate s mid"
  by (simp add: calculateBurnRate_def)

lemma analyzeModel_fields:
  "modelId (fst (analyzeModel s now m snap)) = modelId m"
  "remainingPercent (fst (analyzeModel s now m snap)) = remainingPercent m"
  "isExhausted (fst (analyzeModel s now m snap)) = isExhausted m"
  "burnRate (insights (fst (analyzeModel s now m snap))) = calculateBurnRate s (modelId m)"
  "isActive (insights (fst (analyzeModel s now m snap))) = detectActiveModel s m snap"
  by (simp_all add: analyzeModel_def Let_def case_prod_beta)

lemma analyzeModel_lastActive:
  "lastActiveModelId (snd (analyzeModel s now m snap)) =
     (if detectActiveModel s m snap then Some (modelId m) else lastActiveModelId s)"
  by (simp add: analyzeModel_def Let_def case_prod_beta)


lemma analyzeModels_take:
  "take i (fst (analyzeModels s now snap ms)) = fst (analyzeModels s now snap (take i ms))"
proof (induction ms arbitrary: s i)
  case Nil
  then show ?case by simp
next
  case (Cons m ms)
  then show ?case by (cases i) (simp_all add: case_prod_beta Let_def)
qed

lemma analyzeModels_nth:
  "i < length ms \<Longrightarrow>
   fst (analyzeModels s now snap ms) ! i =
     fst (analyzeModel (snd (analyzeModels s now snap (take i ms))) now (ms ! i) snap)"
proof (induction ms arbitrary: s i)
  case Nil
  then show ?case by simp
next
  case (Cons m ms)
  then show ?case by (cases i) (simp_all add: case_prod_beta Let_def)
qed

lemma analyzeModels_lastActive:
  "lastActiveModelId (snd (analyzeModels s now snap ms)) =
     rememberedActive (lastActiveModelId s) (fst (analyzeModels s now snap ms))"
  by (induction ms arbitrary: s)
     (simp_all add: rememberedActive_def case_prod_beta Let_def analyzeModel_fields
        analyzeModel_lastActive)

lemma analyzeModels_burnRates:
  "map (\<lambda>r. burnRate (insights r)) (fst (analyzeModels s now snap ms)) =
   map (\<lambda>m. calculateBurnRate s (modelId m)) ms"
proof (induction ms arbitrary: s)
  case Nil
  then show ?case by simp
next
  case (Cons m ms)
  let ?s = "snd (analyzeModel s now m snap)"
  have same: "\<And>mid. calculateBurnRate ?s mid = calculateBurnRate s mid"
    by (rule calculateBurnRate_history) (rule analyzeModel_history)
  have "map (\<lambda>r. burnRate (insights r)) (fst (analyzeModels ?s now snap ms)) =
        map (\<lambda>m. calculateBurnRate s (modelId m)) ms"
    by (simp only: Cons.IH same)
  moreover have "fst (analyzeModels s now snap (m # ms)) =
     fst (analyzeModel s now m snap) # fst (analyzeModels ?s now snap ms)"
    by (simp add: case_prod_beta Let_def)
  ultimately show ?case
    by (simp only: list.map analyzeModel_fields)
qed

lemma mset_insert_by: "mset (insert_by cmp x xs) = add_mset x (mset xs)"
  by (induction xs) simp_all

lemma mset_sort_by: "mset (sort_by cmp xs) = mset xs"
  by (induction xs) (simp_all add: sort_by_def mset_insert_by)

lemma analyze_models:
  "modelsWithInsights (fst (analyze s now snap)) =
     sort_by compareModels (analysedModels s now snap)"
  by (simp add: analyze_def analysedModels_def Let_def case_prod_beta)

lemma analyze_mset:
  "mset (modelsWithInsights (fst (analyze s now snap))) = mset (analysedModels s now snap)"
  by (simp add: analyze_models mset_sort_by)


lemma prepared_lastActive:
  "lastActiveModelId (initSessionStart (recordSnapshot s snap) snap) = lastActiveModelId s"
  by (simp add: initSessionStart_def recordSnapshot_def Let_def)


lemma analysed_nth:
  "i < length (models snap) \<Longrightarrow>
   analysedModels s now snap ! i =
     fst (analyzeModel
            (snd (analyzeModels (initSessionStart (recordSnapshot s snap) snap) now snap
                    (take i (models snap))))
            now (models snap ! i) snap)"
  unfolding analysedModels_def by (rule analyzeModels_nth)




section \<open>Burn rate\<close>



section \<open>The history is a bounded queue\<close>

lemma analyzeAll_history:
  "length (history s) \<le> MAX_HISTORY \<Longrightarrow>
   history (analyzeAll s xs) =
     drop (length (history s) + length xs - MAX_HISTORY) (history s @ map (historyEntry \<circ> snd) xs)"
proof (induction xs arbitrary: s)
  case Nil
  then show ?case by (simp add: analyzeAll_def)
next
  case (Cons x xs)
  obtain now snap where x: "x = (now, snap)" by (cases x)
  let ?s = "snd (analyze s now snap)"
  have h: "history ?s =
      (if length (history s) \<ge> MAX_HISTORY then tl (history s) @ [historyEntry snap]
       else history s @ [historyEntry snap])"
    by (simp add: analyze_history recordSnapshot_history)
  have len: "length (history ?s) \<le> MAX_HISTORY"
    using Cons.prems h by (auto simp: MAX_HISTORY_def)
  have "history (analyzeAll s (x # xs)) = history (analyzeAll ?s xs)"
    by (simp add: analyzeAll_def x)
  also have "\<dots> = drop (length (history ?s) + length xs - MAX_HISTORY)
                      (history ?s @ map (historyEntry \<circ> snd) xs)"
    using Cons.IH[OF len] .
  also have "\<dots> = drop (length (history s) + length (x # xs) - MAX_HISTORY)
                      (history s @ map (historyEntry \<circ> snd) (x # xs))"
  proof (cases "length (history s) \<ge> MAX_HISTORY")
    case True
    then have eq: "length (history s) = MAX_HISTORY" using Cons.prems by simp
    then have ne: "history s \<noteq> []" by (auto simp: MAX_HISTORY_def)
    have "history ?s = tl (history s) @ [historyEntry snap]" using h True by simp
    then show ?thesis using eq ne x
      by (cases "history s") (auto simp: MAX_HISTORY_def drop_Cons')
  next
    case False
    then show ?thesis using h x by simp
  qed
  finally show ?case .
qed

lemma fresh_session_history:
  "history (analyzeAll (newInsightsService t0) xs) =
     map (historyEntry \<circ> snd) (drop (length xs - 20) xs)"
  using analyzeAll_history[of "newInsightsService t0" xs]
  by (simp add: newInsightsService_def MAX_HISTORY_def drop_map)

text \<open>
  Claim C6. After any sequence of \<open>analyze\<close> calls on a fresh service the history holds
  at most 20 entries; after 25 calls it holds exactly 20, the entries of the last 20
  snapshots in the order of the calls, the first 5 having been evicted.
\<close>

theorem history_bounded_fifo:
  "length (history (analyzeAll (newInsightsService t0) xs)) \<le> 20 \<and>
   (length xs = 25 \<longrightarrow>
      length (history (analyzeAll (newInsightsService t0) xs)) = 20 \<and>
      history (analyzeAll (newInsightsService t0) xs) = map (historyEntry \<circ> snd) (drop 5 xs))"
proof -
  have kept: "history (analyzeAll (newInsightsService t0) xs) =
                map (historyEntry \<circ> snd) (drop (length xs - 20) xs)"
    by (rule fresh_session_history)
  have bounded: "length (history (analyzeAll (newInsightsService t0) xs)) \<le> 20"
    unfolding kept by simp
  have last20: "length xs = 25 \<longrightarrow>
      length (history (analyzeAll (newInsightsService t0) xs)) = 20 \<and>
      history (analyzeAll (newInsightsService t0) xs) = map (historyEntry \<circ> snd) (drop 5 xs)"
    unfolding kept by simp
  show ?thesis using bounded last20 by (rule conjI)
qed

theorem history_bounded_fifo_witness:
  "length session25 = 25 \<and>
   length (history (analyzeAll (newInsightsService 0) session25)) = 20 \<and>
   history (analyzeAll (newInsightsService 0) session25) =
     map (historyEntry \<circ> snd) (drop 5 session25)"
proof -
  have len: "length session25 = 25" by (simp add: session25_def)
  show ?thesis using len history_bounded_fifo[of 0 session25] by simp
qed

section \<open>Active-resource inference\<close>

text \<open>
  Claim C1, as stated, fails: two resources that tie at the largest burn rate, above
  1.0, are both marked active, although neither has a strictly larger rate than the
  other and no resource was remembered as active before the call.
\<close>

theorem active_rule_counterexample:
  "lastActiveModelId state_after_full = None \<and>
   map modelId (modelsWithInsights (fst (analyze state_after_full 3600000 snapshot_tied)))
     = [''A'', ''B''] \<and>
   map (burnRate \<circ> insights) (modelsWithInsights (fst (analyze state_after_full 3600000 snapshot_tied)))
     = [5, 5] \<and>
   map (isActive \<circ> insights) (modelsWithInsights (fst (analyze state_after_full 3600000 snapshot_tied)))
     = [True, True]"
  by code_simp

text \<open>
  The remembered id is also overwritten during the call: a resource that was remembered
  from the previous call is not marked active once a resource before it in the snapshot
  has been marked active by its burn rate.
\<close>

lemma persistence_overridden_example:
  "lastActiveModelId state_b_remembered = Some ''B'' \<and>
   map modelId (modelsWithInsights (fst (analyze state_b_remembered 7200000 snapshot_a_burning)))
     = [''A'', ''B''] \<and>
   map (burnRate \<circ> insights)
       (modelsWithInsights (fst (analyze state_b_remembered 7200000 snapshot_a_burning)))
     = [25, 5] \<and>
   map (isActive \<circ> insights)
       (modelsWithInsights (fst (analyze state_b_remembered 7200000 snapshot_a_burning)))
     = [True, False]"
  by code_simp

text \<open>
  Claim C1, amended. \<open>analyze\<close> returns the enriched resources of \<open>analysedModels\<close>,
  reordered. The resource at position \<open>i\<close> of the snapshot is marked active if and only if
  (a) its burn rate exceeds 1.0 and equals the largest burn rate among the resources of
  the snapshot (every resource of a tie is marked), or (b) its id is the remembered id at
  the moment it is processed: the id of the last resource marked active before it in the
  same call, or, when there is none, the id remembered from the previous call.
\<close>

theorem active_rule:
  assumes "i < length (models snap)"
  shows "mset (modelsWithInsights (fst (analyze s now snap))) = mset (analysedModels s now snap) \<and>
     (isActive (insights (analysedModels s now snap ! i)) \<longleftrightarrow>
        (burnRate (insights (analysedModels s now snap ! i)) > 1 \<and>
         Math_max (map (burnRate \<circ> insights) (analysedModels s now snap)) =
           Some (burnRate (insights (analysedModels s now snap ! i))))
        \<or> rememberedActive (lastActiveModelId s) (take i (analysedModels s now snap)) =
            Some (modelId (analysedModels s now snap ! i)))"
proof -
  let ?s2 = "initSessionStart (recordSnapshot s snap) snap"
  let ?si = "snd (analyzeModels ?s2 now snap (take i (models snap)))"
  let ?m = "models snap ! i"
  have r: "analysedModels s now snap ! i = fst (analyzeModel ?si now ?m snap)"
    using assms by (rule analysed_nth)
  have rate: "\<And>mid. calculateBurnRate ?si mid = calculateBurnRate ?s2 mid"
    by (rule calculateBurnRate_history) (rule analyzeModels_history)
  have rates: "map (burnRate \<circ> insights) (analysedModels s now snap) =
               map (\<lambda>m. calculateBurnRate ?s2 (modelId m)) (models snap)"
    unfolding analysedModels_def comp_def by (rule analyzeModels_burnRates)
  have last: "lastActiveModelId ?si =
              rememberedActive (lastActiveModelId s) (take i (analysedModels s now snap))"
    by (simp only: analyzeModels_lastActive analysedModels_def analyzeModels_take
          prepared_lastActive)
  have "isActive (insights (analysedModels s now snap ! i)) \<longleftrightarrow>
        (burnRate (insights (analysedModels s now snap ! i)) > 1 \<and>
         Math_max (map (burnRate \<circ> insights) (analysedModels s now snap)) =
           Some (burnRate (insights (analysedModels s now snap ! i))))
        \<or> rememberedActive (lastActiveModelId s) (take i (analysedModels s now snap)) =
            Some (modelId (analysedModels s now snap ! i))"
    by (simp only: r analyzeModel_fields rates flip: last)
       (auto simp add: detectActiveModel_def Let_def rate)
  then show ?thesis by (simp add: analyze_mset)
qed

theorem active_rule_witness:
  "(1::nat) < length (models snapshot_tied) \<and>
   isActive (insights (analysedModels state_after_full 3600000 snapshot_tied ! 1)) \<and>
   burnRate (insights (analysedModels state_after_full 3600000 snapshot_tied ! 1)) > 1 \<and>
   Math_max (map (burnRate \<circ> insights) (analysedModels state_after_full 3600000 snapshot_tied)) =
     Some (burnRate (insights (analysedModels state_after_full 3600000 snapshot_tied ! 1)))"
proof -
  have len: "(1::nat) < length (models snapshot_tied)" by (simp add: snapshot_tied_def)
  have rate: "burnRate (insights (analysedModels state_after_full 3600000 snapshot_tied ! 1)) > 1"
    by code_simp
  have top: "Math_max (map (burnRate \<circ> insights) (analysedModels state_after_full 3600000 snapshot_tied)) =
     Some (burnRate (insights (analysedModels state_after_full 3600000 snapshot_tied ! 1)))"
    by code_simp
  show ?thesis
    using len rate top active_rule[OF len, of state_after_full 3600000] by simp
qed

section \<open>Exhaustion prediction\<close>


text \<open>Such a resource is what \<open>parseResponse\<close> makes of a remaining fraction of 0.004.\<close>

lemma nearly_empty_is_parsed:
  "map remainingFraction (parseModels invalidDateOfString 0 [raw_nearly_empty]) = [0.004] \<and>
   map remainingPercent (parseModels invalidDateOfString 0 [raw_nearly_empty]) = [0] \<and>
   map isExhausted (parseModels invalidDateOfString 0 [raw_nearly_empty]) = [False]"
  by code_simp



section \<open>QuotaService: normalising a response\<close>

lemma parseResponse_Inr:
  "parseResponse ofString parseDate now data = Inr snap \<Longrightarrow>
   \<exists>status. userStatus data = Some status \<and>
     models snap = parseModels parseDate now (rawModelsOf status) \<and>
     promptCredits snap = parseCredits ofString status \<and> timestamp snap = now"
  by (auto simp add: parseResponse_def Let_def split: option.splits)

lemma parseModels_ids:
  "map modelId (parseModels parseDate now raws) =
     map effectiveModelId (filter (\<lambda>m. quotaInfo m \<noteq> None) raws)"
  by (simp add: parseModels_def parseModel_def Let_def comp_def)



lemma parseCredits_present:
  "(parseCredits ofString status \<noteq> None) =
   (\<exists>plan info av mo. planStatus status = Some plan \<and> planInfo plan = Some info \<and>
      availablePromptCredits plan = Some av \<and>
      Number ofString (monthlyPromptCredits info) = Some mo \<and> mo > 0)"
  by (auto simp add: parseCredits_def Let_def split: option.splits)

lemma parseCredits_example:
  "planStatus status = Some plan \<Longrightarrow> planInfo plan = Some \<lparr>monthlyPromptCredits = Num 500\<rparr> \<Longrightarrow>
   availablePromptCredits plan = Some (Num 350) \<Longrightarrow>
   parseCredits ofString status =
     Some \<lparr>available = Some 350, monthly = Some 500, usedPercentage = Some 30,
           remainingPercentage = Some 70\<rparr>"
  by (simp add: parseCredits_def Number_def Let_def)

text \<open>
  Claim C4, as stated, fails: two raw entries that carry the same model identifier give
  two resources with the same \<open>modelId\<close>.
\<close>

theorem snapshot_ids_counterexample:
  "parseResponse nanOfString invalidDateOfString 1000 response_same_id = Inr snapshot_same_id \<and>
   map modelId (models snapshot_same_id) = [''openai/gpt-4'', ''openai/gpt-4''] \<and>
   \<not> distinct (map modelId (models snapshot_same_id))"
  by code_simp

text \<open>
  Claim C4, amended. The \<open>modelId\<close>s of a snapshot are, in order, the model identifiers
  of the raw entries that have quota info, \<open>unknown\<close> standing for an absent or empty
  identifier; they are pairwise distinct exactly when those identifiers are.
\<close>

theorem snapshot_ids:
  assumes "parseResponse ofString parseDate now data = Inr snap"
  shows "\<exists>status. userStatus data = Some status \<and>
     map modelId (models snap) =
       map effectiveModelId (filter (\<lambda>m. quotaInfo m \<noteq> None) (rawModelsOf status)) \<and>
     (distinct (map modelId (models snap)) \<longleftrightarrow>
      distinct (map effectiveModelId (filter (\<lambda>m. quotaInfo m \<noteq> None) (rawModelsOf status))))"
proof -
  obtain status where st: "userStatus data = Some status"
    and ms: "models snap = parseModels parseDate now (rawModelsOf status)"
    using parseResponse_Inr[OF assms] by blast
  show ?thesis using st ms by (simp add: parseModels_ids)
qed

theorem snapshot_ids_witness:
  "parseResponse nanOfString invalidDateOfString 1000 response_credits = Inr snapshot_credits \<and>
   distinct (map modelId (models snapshot_credits)) \<and>
   (\<exists>status. userStatus response_credits = Some status \<and>
      map modelId (models snapshot_credits) =
        map effectiveModelId (filter (\<lambda>m. quotaInfo m \<noteq> None) (rawModelsOf status)))"
proof -
  have p: "parseResponse nanOfString invalidDateOfString 1000 response_credits = Inr snapshot_credits"
    by code_simp
  have d: "distinct (map modelId (models snapshot_credits))"
    by code_simp
  show ?thesis using p d snapshot_ids[OF p] by blast
qed



text \<open>
  Claim C7. A snapshot has a credit balance if and only if the response has plan info
  and an available-credits figure and the monthly figure, as a number, is positive; for
  a monthly figure of 500 and 350 available the balance has \<open>usedPercentage = 30\<close> and
  \<open>remainingPercentage = 70\<close>.
\<close>

theorem credits_present:
  assumes "parseResponse ofString parseDate now data = Inr snap"
  shows "(promptCredits snap \<noteq> None \<longleftrightarrow>
           (\<exists>status plan info av mo.
              userStatus data = Some status \<and> planStatus status = Some plan \<and>
              planInfo plan = Some info \<and> availablePromptCredits plan = Some av \<and>
              Number ofString (monthlyPromptCredits info) = Some mo \<and> mo > 0)) \<and>
         ((\<exists>status plan.
              userStatus data = Some status \<and> planStatus status = Some plan \<and>
              planInfo plan = Some \<lparr>monthlyPromptCredits = Num 500\<rparr> \<and>
              availablePromptCredits plan = Some (Num 350)) \<longrightarrow>
          (\<exists>c. promptCredits snap = Some c \<and>
               usedPercentage c = Some 30 \<and> remainingPercentage c = Some 70))"
proof -
  obtain status where st: "userStatus data = Some status"
    and pc: "promptCredits snap = parseCredits ofString status"
    using parseResponse_Inr[OF assms] by blast
  have one: "promptCredits snap \<noteq> None \<longleftrightarrow>
           (\<exists>status plan info av mo.
              userStatus data = Some status \<and> planStatus status = Some plan \<and>
              planInfo plan = Some info \<and> availablePromptCredits plan = Some av \<and>
              Number ofString (monthlyPromptCredits info) = Some mo \<and> mo > 0)"
    unfolding pc parseCredits_present using st by auto
  have two: "(\<exists>status plan.
              userStatus data = Some status \<and> planStatus status = Some plan \<and>
              planInfo plan = Some \<lparr>monthlyPromptCredits = Num 500\<rparr> \<and>
              availablePromptCredits plan = Some (Num 350)) \<longrightarrow>
          (\<exists>c. promptCredits snap = Some c \<and>
               usedPercentage c = Some 30 \<and> remainingPercentage c = Some 70)"
    unfolding pc using st by (auto simp add: parseCredits_example)
  show ?thesis using one two by blast
qed

theorem credits_present_witness:
  "parseResponse nanOfString invalidDateOfString 1000 response_credits = Inr snapshot_credits \<and>
   promptCredits snapshot_credits \<noteq> None \<and>
   (\<exists>status plan info av mo.
      userStatus response_credits = Some status \<and> planStatus status = Some plan \<and>
      planInfo plan = Some info \<and> availablePromptCredits plan = Some av \<and>
      Number nanOfString (monthlyPromptCredits info) = Some mo \<and> mo > 0) \<and>
   (\<exists>status plan.
      userStatus response_credits = Some status \<and> planStatus status = Some plan \<and>
      planInfo plan = Some \<lparr>monthlyPromptCredits = Num 500\<rparr> \<and>
      availablePromptCredits plan = Some (Num 350)) \<and>
   (\<exists>c. promptCredits snapshot_credits = Some c \<and>
        usedPercentage c = Some 30 \<and> remainingPercentage c = Some 70)"
proof -
  have p: "parseResponse nanOfString invalidDateOfString 1000 response_credits = Inr snapshot_credits"
    by code_simp
  have c: "promptCredits snapshot_credits \<noteq> None"
    by (simp add: snapshot_credits_def)
  have e: "\<exists>status plan.
      userStatus response_credits = Some status \<and> planStatus status = Some plan \<and>
      planInfo plan = Some \<lparr>monthlyPromptCredits = Num 500\<rparr> \<and>
      availablePromptCredits plan = Some (Num 350)"
    by (simp add: response_credits_def)
  show ?thesis using p c e credits_present[OF p] by blast
qed

section \<open>QuotaService: formatting a duration\<close>






text \<open>The thresholds are on the minutes rounded up: a duration of 59.5 minutes is
  rendered as one hour.\<close>

lemma formatTime_boundary_example: "formatTime (Some 3570000) = ''1h''"
  by code_simp



section \<open>QuotaService: a failed poll\<close>

lemma poll_cases:
  "poll ofString parseDate now s x =
     (if \<not> isConfigured s then (Inl NotConfigured, s)
      else case x of
        ErrorEvent \<Rightarrow> (Inl RequestFailed, s)
      | TimeoutEvent \<Rightarrow> (Inl RequestTimeout, s)
      | Unparsable \<Rightarrow> (Inl InvalidJSON, s)
      | Parsed data \<Rightarrow>
          (case userStatus data of
             None \<Rightarrow> (Inl TypeError, s)
           | Some status \<Rightarrow>
               (Inr (parseModels parseDate now (rawModelsOf status)),
                s\<lparr>lastSnapshot := Some \<lparr>timestamp = now,
                   models = parseModels parseDate now (rawModelsOf status),
                   promptCredits = parseCredits ofString status\<rparr>\<rparr>)))"
  by (simp add: poll_def request_def parseResponse_def Let_def split: Exchange.splits option.splits)

text \<open>
  Claim C9. \<open>poll\<close> fails exactly when the service is not configured, the request ends
  in an error or a timeout, the body is not valid JSON, or the body has no \<open>userStatus\<close>.
  A failed \<open>poll\<close> leaves the retained snapshot as it was: \<open>getSnapshot\<close> returns the
  same value after it as before. A \<open>poll\<close> that succeeds retains the snapshot parsed
  from the body.
\<close>

theorem failed_poll_keeps_snapshot:
  "((\<exists>e. fst (poll ofString parseDate now s x) = Inl e) \<longleftrightarrow>
      (\<not> isConfigured s \<or> x = ErrorEvent \<or> x = TimeoutEvent \<or> x = Unparsable \<or>
       (\<exists>data. x = Parsed data \<and> userStatus data = None))) \<and>
   ((\<exists>e. fst (poll ofString parseDate now s x) = Inl e) \<longrightarrow>
      getSnapshot (snd (poll ofString parseDate now s x)) = getSnapshot s) \<and>
   (\<forall>ms. fst (poll ofString parseDate now s x) = Inr ms \<longrightarrow>
      (\<exists>data snap. x = Parsed data \<and>
         parseResponse ofString parseDate now data = Inr snap \<and> models snap = ms \<and>
         getSnapshot (snd (poll ofString parseDate now s x)) = Some snap))"
proof (intro conjI)
  show "(\<exists>e. fst (poll ofString parseDate now s x) = Inl e) \<longleftrightarrow>
      (\<not> isConfigured s \<or> x = ErrorEvent \<or> x = TimeoutEvent \<or> x = Unparsable \<or>
       (\<exists>data. x = Parsed data \<and> userStatus data = None))"
    by (cases x) (auto simp add: poll_cases split: option.splits)
  show "(\<exists>e. fst (poll ofString parseDate now s x) = Inl e) \<longrightarrow>
      getSnapshot (snd (poll ofString parseDate now s x)) = getSnapshot s"
    by (cases x) (auto simp add: poll_cases getSnapshot_def split: option.splits)
  show "\<forall>ms. fst (poll ofString parseDate now s x) = Inr ms \<longrightarrow>
      (\<exists>data snap. x = Parsed data \<and>
         parseResponse ofString parseDate now data = Inr snap \<and> models snap = ms \<and>
         getSnapshot (snd (poll ofString parseDate now s x)) = Some snap)"
    by (cases x)
       (auto simp add: poll_cases getSnapshot_def parseResponse_def Let_def split: option.splits if_splits)
qed

theorem failed_poll_keeps_snapshot_witness:
  "fst (poll nanOfString invalidDateOfString 2000 service_polled TimeoutEvent) = Inl RequestTimeout \<and>
   getSnapshot (snd (poll nanOfString invalidDateOfString 2000 service_polled TimeoutEvent))
     = getSnapshot service_polled \<and>
   getSnapshot service_polled = Some snapshot_same_id \<and>
   fst (poll nanOfString invalidDateOfString 2000 service_polled (Parsed \<lparr>userStatus = None\<rparr>))
     = Inl TypeError \<and>
   getSnapshot (snd (poll nanOfString invalidDateOfString 2000 service_polled
                       (Parsed \<lparr>userStatus = None\<rparr>)))
     = getSnapshot service_polled \<and>
   fst (poll nanOfString invalidDateOfString 1000 service_polled (Parsed response_credits))
     = Inr (models snapshot_credits) \<and>
   (\<exists>snap. models snap = models snapshot_credits \<and>
      getSnapshot (snd (poll nanOfString invalidDateOfString 1000 service_polled
                          (Parsed response_credits))) = Some snap)"
proof -
  have conf: "isConfigured service_polled"
    by (simp add: isConfigured_def service_polled_def)
  have t: "fst (poll nanOfString invalidDateOfString 2000 service_polled TimeoutEvent)
             = Inl RequestTimeout"
    using conf by (simp add: poll_def request_def)
  have u: "fst (poll nanOfString invalidDateOfString 2000 service_polled
                  (Parsed \<lparr>userStatus = None\<rparr>)) = Inl TypeError"
    using conf by (simp add: poll_def request_def parseResponse_def)
  have g: "getSnapshot service_polled = Some snapshot_same_id"
    by (simp add: getSnapshot_def service_polled_def)
  have ok: "fst (poll nanOfString invalidDateOfString 1000 service_polled (Parsed response_credits))
     = Inr (models snapshot_credits)"
    by code_simp
  have k1: "getSnapshot (snd (poll nanOfString invalidDateOfString 2000 service_polled TimeoutEvent))
     = getSnapshot service_polled"
    using t
      failed_poll_keeps_snapshot[of nanOfString invalidDateOfString 2000 service_polled TimeoutEvent]
    by metis
  have k2: "getSnapshot (snd (poll nanOfString invalidDateOfString 2000 service_polled
                       (Parsed \<lparr>userStatus = None\<rparr>)))
     = getSnapshot service_polled"
    using u
      failed_poll_keeps_snapshot[of nanOfString invalidDateOfString 2000 service_polled
        "Parsed \<lparr>userStatus = None\<rparr>"]
    by metis
  have k3: "\<exists>snap. models snap = models snapshot_credits \<and>
      getSnapshot (snd (poll nanOfString invalidDateOfString 1000 service_polled
                          (Parsed response_credits))) = Some snap"
    using ok
      failed_poll_keeps_snapshot[of nanOfString invalidDateOfString 1000 service_polled
        "Parsed response_credits"]
    by metis
  show ?thesis
    using t u g ok k1 k2 k3 by (intro conjI)
qed

section \<open>UnixStrategy: a process without the token flag\<close>

lemma str_includes_sublist: "str_includes hay needle = sublist needle hay"
  by (induction hay) (simp_all add: sublist_Cons_right)

lemma sublist_trans: "sublist xs ys \<Longrightarrow> sublist ys zs \<Longrightarrow> sublist xs zs"
  by (rule sublist_order.order_trans)

lemma sublist_trim: "sublist (trim str) str"
proof -
  have "sublist (dropWhile isSpace (rev (dropWhile isSpace str))) (rev (dropWhile isSpace str))"
    by (rule sublist_dropWhile)
  then have "sublist (trim str) (dropWhile isSpace str)"
    by (simp add: trim_def sublist_rev_left)
  then show ?thesis
    by (rule sublist_trans) (rule sublist_dropWhile)
qed

lemma matchAt_prefix: "matchAt flag cls str = Some captured \<Longrightarrow> prefix flag str"
  by (simp add: matchAt_def split: if_splits)

lemma matchFlag_sublist: "matchFlag flag cls str = Some captured \<Longrightarrow> sublist flag str"
proof (induction str)
  case Nil
  then show ?case by (auto dest: matchAt_prefix)
next
  case (Cons c cs)
  then show ?case
    by (auto simp add: sublist_Cons_right dest: matchAt_prefix split: option.splits)
qed

lemma parseLine_no_token:
  assumes "\<not> str_includes line ''--csrf_token''"
  shows "csrfToken (parseLine line) = []"
proof -
  let ?first = "takeWhile (\<lambda>c. \<not> isSpace c) (trim line)"
  let ?cmd = "trim (drop (length ?first) line)"
  have "sublist ?cmd line"
    by (rule sublist_trans[OF sublist_trim]) (rule sublist_drop)
  then have "\<not> sublist ''--csrf_token'' ?cmd"
    using assms sublist_trans by (auto simp only: str_includes_sublist)
  then have "matchFlag ''--csrf_token'' isTokenChar ?cmd = None"
    using matchFlag_sublist by (cases "matchFlag ''--csrf_token'' isTokenChar ?cmd") auto
  then show ?thesis
    by (simp add: parseLine_def Let_def)
qed

lemma unconfigured_empty_token: "\<not> isConfigured (setConnection s p [])"
  by (simp add: isConfigured_def setConnection_def)

section \<open>WindowsStrategy: a match carries a token\<close>

lemma matchTokenAt_Some:
  "matchTokenAt str = Some token \<Longrightarrow>
   token \<noteq> [] \<and> prefix ''--csrf_token'' (toLowerCase str)"
proof -
  assume a: "matchTokenAt str = Some token"
  then have l: "toLowerCase (take 12 str) = ''--csrf_token''" and t: "token \<noteq> []"
    by (auto simp add: matchTokenAt_def Let_def split: if_splits)
  have "toLowerCase (take 12 str) = take 12 (toLowerCase str)"
    by (simp add: toLowerCase_def take_map)
  then have "prefix ''--csrf_token'' (toLowerCase str)"
    using l by (metis take_is_prefix)
  then show ?thesis using t by simp
qed

lemma matchToken_Some:
  "matchToken str = Some token \<Longrightarrow>
   token \<noteq> [] \<and> sublist ''--csrf_token'' (toLowerCase str)"
proof (induction str)
  case Nil
  then show ?case using matchTokenAt_Some[of "[]" token] by auto
next
  case (Cons c cs)
  show ?case
  proof (cases "matchTokenAt (c # cs)")
    case None
    then have "matchToken cs = Some token" using Cons.prems by simp
    then have "token \<noteq> []" "sublist ''--csrf_token'' (toLowerCase cs)"
      using Cons.IH by simp_all
    then show ?thesis
      by (simp add: toLowerCase_def sublist_Cons_right)
  next
    case (Some t)
    then have "t = token" using Cons.prems by simp
    then show ?thesis using matchTokenAt_Some[of "c # cs" token] Some by auto
  qed
qed

lemma parsePowerShellProcess_Some:
  assumes "parsePowerShellProcess data = Some info"
  shows "csrfToken info \<noteq> [] \<and>
         (\<exists>cl. CommandLine data = Some cl \<and> str_includes (toLowerCase cl) ''--csrf_token'')"
proof -
  let ?cl = "case CommandLine data of Some cl \<Rightarrow> cl | None \<Rightarrow> []"
  obtain token where m: "matchToken ?cl = Some token" and t: "csrfToken info = token"
    using assms
    by (auto simp add: parsePowerShellProcess_def Let_def split: option.splits if_splits)
  have ne: "token \<noteq> []" and sub: "sublist ''--csrf_token'' (toLowerCase ?cl)"
    using matchToken_Some[OF m] by simp_all
  have "CommandLine data \<noteq> None"
  proof
    assume "CommandLine data = None"
    then have "sublist ''--csrf_token'' (toLowerCase [])" using sub by simp
    then show False by (simp add: toLowerCase_def)
  qed
  then obtain cl where cl: "CommandLine data = Some cl" by blast
  then have "str_includes (toLowerCase cl) ''--csrf_token''"
    using sub by (simp add: str_includes_sublist)
  then show ?thesis using ne t cl by simp
qed

lemma matchRunAt_sublist: "matchRunAt literal cls str = Some captured \<Longrightarrow> sublist captured str"
proof -
  assume "matchRunAt literal cls str = Some captured"
  then have c: "captured = takeWhile cls (drop (length literal) str)"
    by (auto simp add: matchRunAt_def Let_def split: if_splits)
  have "sublist (takeWhile cls (drop (length literal) str)) (drop (length literal) str)"
    by (rule sublist_takeWhile)
  then show ?thesis unfolding c by (rule sublist_trans) (rule sublist_drop)
qed

lemma matchRun_sublist: "matchRun literal cls str = Some captured \<Longrightarrow> sublist captured str"
proof (induction str)
  case Nil
  then show ?case by (auto dest: matchRunAt_sublist)
next
  case (Cons c cs)
  show ?case
  proof (cases "matchRunAt literal cls (c # cs)")
    case None
    then have "sublist captured cs" using Cons by simp
    then show ?thesis by (simp add: sublist_Cons_right)
  next
    case (Some t)
    then show ?thesis using Cons.prems matchRunAt_sublist[of literal cls "c # cs" captured] by simp
  qed
qed

lemma sublist_toLowerCase: "sublist xs ys \<Longrightarrow> sublist (toLowerCase xs) (toLowerCase ys)"
  unfolding toLowerCase_def by (rule map_mono_sublist)

lemma parseWmicBlock_Some:
  assumes "parseWmicBlock block = Some info"
  shows "csrfToken info \<noteq> [] \<and> sublist ''--csrf_token'' (toLowerCase block)"
proof -
  obtain raw token where raw: "matchRun ''CommandLine='' isLineChar block = Some raw"
    and m: "matchToken (trim raw) = Some token" and t: "csrfToken info = token"
    using assms
    by (auto simp add: parseWmicBlock_def Let_def split: option.splits if_splits)
  have "sublist (trim raw) block"
    by (rule sublist_trans[OF sublist_trim]) (rule matchRun_sublist[OF raw])
  then have "sublist (toLowerCase (trim raw)) (toLowerCase block)"
    by (rule sublist_toLowerCase)
  then have "sublist ''--csrf_token'' (toLowerCase block)"
    using matchToken_Some[OF m] sublist_trans by blast
  then show ?thesis using matchToken_Some[OF m] t by simp
qed

lemma firstMatch_Some:
  "firstMatch blocks = Some info \<Longrightarrow>
   \<exists>block \<in> set blocks. parseWmicBlock block = Some info"
  by (induction blocks) (auto split: option.splits)

lemma splitBlankLines_pieces:
  "splitBlankLines str \<noteq> [] \<and> prefix (hd (splitBlankLines str)) str \<and>
   (\<forall>piece \<in> set (splitBlankLines str). sublist piece str)"
proof (induction str rule: splitBlankLines.induct)
  case 1
  then show ?case by simp
next
  case (2 c cs)
  show ?case
  proof (cases "c = CHR 0x0A \<and> blankLineLength cs > 0")
    case True
    then have ih: "\<forall>piece \<in> set (splitBlankLines (drop (blankLineLength cs) cs)).
                     sublist piece (drop (blankLineLength cs) cs)"
      using 2(1) by simp
    have "\<And>piece. sublist piece (drop (blankLineLength cs) cs) \<Longrightarrow> sublist piece (c # cs)"
      by (meson sublist_drop sublist_trans sublist_Cons_right)
    then show ?thesis using True ih by auto
  next
    case False
    then have ih: "splitBlankLines cs \<noteq> []" "prefix (hd (splitBlankLines cs)) cs"
      "\<forall>piece \<in> set (splitBlankLines cs). sublist piece cs"
      using 2(2) by auto
    then obtain p ps where ps: "splitBlankLines cs = p # ps" by (cases "splitBlankLines cs") auto
    have "sublist (c # p) (c # cs)" using ih(2) ps by (simp add: sublist_Cons_right)
    moreover have "\<forall>piece \<in> set ps. sublist piece (c # cs)"
      using ih(3) ps by (simp add: sublist_Cons_right)
    moreover have "splitBlankLines (c # cs) = (c # p) # ps"
      using False ps by auto
    ultimately show ?thesis using ih(2) ps by simp
  qed
qed

lemma parseWmic_Some:
  assumes "parseWmic stdout = Some info"
  shows "csrfToken info \<noteq> [] \<and> str_includes (toLowerCase stdout) ''--csrf_token''"
proof -
  obtain block where b: "block \<in> set (splitBlankLines stdout)"
    and p: "parseWmicBlock block = Some info"
    using firstMatch_Some[OF assms[unfolded parseWmic_def]] by auto
  have "sublist block stdout" using splitBlankLines_pieces b by blast
  then have "sublist (toLowerCase block) (toLowerCase stdout)" by (rule sublist_toLowerCase)
  then have "sublist ''--csrf_token'' (toLowerCase stdout)"
    using parseWmicBlock_Some[OF p] sublist_trans by blast
  then show ?thesis using parseWmicBlock_Some[OF p] by (simp add: str_includes_sublist)
qed

lemma windows_match_has_token:
  assumes "WindowsStrategy_parseProcessInfo jsonParse stdout = Some info"
  shows "csrfToken info \<noteq> [] \<and>
         (case jsonParse (trim stdout) of
            Some out \<Rightarrow>
              \<exists>p \<in> set (processesOf out). \<exists>cl.
                 CommandLine p = Some cl \<and> str_includes (toLowerCase cl) ''--csrf_token''
          | None \<Rightarrow> str_includes (toLowerCase stdout) ''--csrf_token'')"
proof (cases "jsonParse (trim stdout)")
  case None
  then have "parseWmic stdout = Some info"
    using assms by (simp add: WindowsStrategy_parseProcessInfo_def)
  then show ?thesis using None parseWmic_Some by simp
next
  case (Some out)
  show ?thesis
  proof (cases out)
    case (ProcessArray items)
    then obtain data others where f: "filter isAntigravityItem items = data # others"
      and p: "parsePowerShellProcess data = Some info"
      using assms Some
      by (auto simp add: WindowsStrategy_parseProcessInfo_def split: if_splits list.splits)
    have "data \<in> set (filter isAntigravityItem items)"
      unfolding f by simp
    then have "data \<in> set (processesOf out)"
      using ProcessArray by (simp add: processesOf_def)
    then show ?thesis using Some parsePowerShellProcess_Some[OF p] by auto
  next
    case (ProcessObject data)
    then have p: "parsePowerShellProcess data = Some info"
      using assms Some
      by (auto simp add: WindowsStrategy_parseProcessInfo_def split: if_splits)
    have "data \<in> set (processesOf out)"
      using ProcessObject by (simp add: processesOf_def)
    then show ?thesis using Some parsePowerShellProcess_Some[OF p] by auto
  qed
qed

lemma windows_rejects_examples:
  "WindowsStrategy_parseProcessInfo noJson wmic_without_token = None"
  "WindowsStrategy_parseProcessInfo powershell_without_token [] = None"
  by code_simp+

text \<open>
  Claim C10. On the Unix strategy, when the first line of the process list that contains
  the extension-port flag (the line \<open>parseProcessInfo\<close> takes) contains no csrf-token
  flag, \<open>parseProcessInfo\<close> still returns a match, and its \<open>csrfToken\<close> is the empty
  string; a \<open>QuotaService\<close> whose connection is set with that token, whatever the port,
  is not configured. The Windows strategy differs: every match it returns has a
  non-empty \<open>csrfToken\<close>, and the token flag occurs in a command line of the parsed
  PowerShell output or, when that output is not JSON, in the WMIC output, so a process
  without the flag is rejected.
\<close>

theorem match_without_token:
  assumes "find (\<lambda>l. str_includes l ''--extension_server_port'') (str_split CHR 0x0A stdout)
             = Some line"
    and "\<not> str_includes line ''--csrf_token''"
  shows "(\<exists>info. UnixStrategy_parseProcessInfo stdout = Some info \<and> csrfToken info = [] \<and>
            \<not> isConfigured (setConnection service connectPort (csrfToken info))) \<and>
         (\<forall>jsonParse winStdout info.
            WindowsStrategy_parseProcessInfo jsonParse winStdout = Some info \<longrightarrow>
              csrfToken info \<noteq> [] \<and>
              (case jsonParse (trim winStdout) of
                 Some out \<Rightarrow>
                   \<exists>p \<in> set (processesOf out). \<exists>cl.
                      CommandLine p = Some cl \<and> str_includes (toLowerCase cl) ''--csrf_token''
               | None \<Rightarrow> str_includes (toLowerCase winStdout) ''--csrf_token''))"
proof (intro conjI allI impI)
  have r: "UnixStrategy_parseProcessInfo stdout = Some (parseLine line)"
    using assms(1) by (simp add: UnixStrategy_parseProcessInfo_def)
  have t: "csrfToken (parseLine line) = []"
    using assms(2) by (rule parseLine_no_token)
  show "\<exists>info. UnixStrategy_parseProcessInfo stdout = Some info \<and> csrfToken info = [] \<and>
            \<not> isConfigured (setConnection service connectPort (csrfToken info))"
    using r t unconfigured_empty_token[of service connectPort] by simp
next
  fix jsonParse winStdout info
  assume w: "WindowsStrategy_parseProcessInfo jsonParse winStdout = Some info"
  show "csrfToken info \<noteq> []"
    using windows_match_has_token[OF w] by simp
  show "case jsonParse (trim winStdout) of
          Some out \<Rightarrow>
            \<exists>p \<in> set (processesOf out). \<exists>cl.
               CommandLine p = Some cl \<and> str_includes (toLowerCase cl) ''--csrf_token''
        | None \<Rightarrow> str_includes (toLowerCase winStdout) ''--csrf_token''"
    using windows_match_has_token[OF w] by simp
qed

theorem match_without_token_witness:
  "find (\<lambda>l. str_includes l ''--extension_server_port'') (str_split CHR 0x0A line_without_token)
     = Some line_without_token \<and>
   \<not> str_includes line_without_token ''--csrf_token'' \<and>
   (\<exists>info. UnixStrategy_parseProcessInfo line_without_token = Some info \<and> csrfToken info = [] \<and>
      \<not> isConfigured (setConnection newQuotaService 42100 (csrfToken info))) \<and>
   WindowsStrategy_parseProcessInfo noJson wmic_with_token
     = Some \<lparr>pid = Some 4242, extensionPort = Some 42100, csrfToken = ''ab12-cd''\<rparr> \<and>
   str_includes (toLowerCase wmic_with_token) ''--csrf_token''"
proof -
  have f: "find (\<lambda>l. str_includes l ''--extension_server_port'') (str_split CHR 0x0A line_without_token)
     = Some line_without_token"
    by code_simp
  have n: "\<not> str_includes line_without_token ''--csrf_token''"
    by code_simp
  have w: "WindowsStrategy_parseProcessInfo noJson wmic_with_token
     = Some \<lparr>pid = Some 4242, extensionPort = Some 42100, csrfToken = ''ab12-cd''\<rparr>"
    by code_simp
  have j: "noJson (trim wmic_with_token) = None"
    by (simp add: noJson_def)
  note inst = match_without_token[OF f n, of newQuotaService 42100]
  have u: "\<exists>info. UnixStrategy_parseProcessInfo line_without_token = Some info \<and> csrfToken info = [] \<and>
      \<not> isConfigured (setConnection newQuotaService 42100 (csrfToken info))"
    using inst by (rule conjunct1)
  have "case noJson (trim wmic_with_token) of
          Some out \<Rightarrow>
            \<exists>p \<in> set (processesOf out). \<exists>cl.
               CommandLine p = Some cl \<and> str_includes (toLowerCase cl) ''--csrf_token''
        | None \<Rightarrow> str_includes (toLowerCase wmic_with_token) ''--csrf_token''"
    using inst w by blast
  then have s: "str_includes (toLowerCase wmic_with_token) ''--csrf_token''"
    using j by simp
  show ?thesis using f n u w s by (intro conjI)
qed

end
